theory Spec2Isabelle
  imports Main "HOL-Library.Sublist"
begin

section \<open>Values of the host language\<close>

text \<open>
  The server is a TypeScript module (\<^verbatim>\<open>src/index.ts\<close>). Its handlers read the process
  environment, call the \<^verbatim>\<open>tether-name\<close> SDK, serialise results with
  \<^verbatim>\<open>JSON.stringify(value, null, 2)\<close> and catch whatever is thrown.

  \<^item> \<^verbatim>\<open>process.env\<close> is a partial map from variable names to strings; an unset
    variable reads as \<^verbatim>\<open>undefined\<close>, here \<open>None\<close>.
  \<^item> A thrown value is either an \<^verbatim>\<open>Error\<close> object, of which the handlers use the
    \<^verbatim>\<open>message\<close>, or any other value, of which they use \<^verbatim>\<open>String(error)\<close>. That
    conversion succeeds with a string for most values (\<open>NonError\<close>), and throws for
    the others (\<open>Unprintable\<close>, with the value it throws): an object without usable
    \<^verbatim>\<open>toString\<close> and \<^verbatim>\<open>valueOf\<close>, such as \<^verbatim>\<open>Object.create(null)\<close>, gives a
    \<^verbatim>\<open>TypeError\<close>.
  \<^item> JSON values are trees of null, booleans, strings, arrays and objects (an object
    keeps its properties in insertion order). Numbers are left out: no handler builds
    one.
\<close>

type_synonym env = "string \<rightharpoonup> string"

datatype thrown =
    Error (message: string)
  | NonError (rendered: string)
  | Unprintable thrown

datatype json =
    JNull
  | JBool bool
  | JString string
  | JArray "json list"
  | JObject "(string \<times> json) list"

text \<open>
  \<^verbatim>\<open>error instanceof Error ? error.message : String(error)\<close>: the message (\<open>Inr\<close>), or
  what \<^verbatim>\<open>String(error)\<close> throws (\<open>Inl\<close>).
\<close>

definition message_of :: "thrown \<Rightarrow> thrown + string" where
  "message_of error =
     (case error of Error m \<Rightarrow> Inr m | NonError s \<Rightarrow> Inr s | Unprintable t \<Rightarrow> Inl t)"

text \<open>
  Truthiness of a value of type \<^verbatim>\<open>string | undefined\<close>: \<^verbatim>\<open>undefined\<close> and the
  empty string are falsy, every other string is truthy. \<open>js_not v\<close> is \<^verbatim>\<open>!v\<close> and
  \<open>js_or v d\<close> is \<^verbatim>\<open>v || d\<close> for a string default \<open>d\<close>.
\<close>

definition js_not :: "string option \<Rightarrow> bool" where
  "js_not v = (case v of None \<Rightarrow> True | Some s \<Rightarrow> s = [])"

definition js_or :: "string option \<Rightarrow> string \<Rightarrow> string" where
  "js_or v d = (case v of None \<Rightarrow> d | Some s \<Rightarrow> if s = [] then d else s)"

text \<open>\<^verbatim>\<open>String.prototype.includes\<close>: does \<open>needle\<close> occur in \<open>hay\<close>?\<close>

fun str_includes :: "string \<Rightarrow> string \<Rightarrow> bool" where
  "str_includes [] needle = (needle = [])"
| "str_includes (c # cs) needle = (prefix needle (c # cs) \<or> str_includes cs needle)"

subsection \<open>JSON.stringify with an indentation of two spaces\<close>

definition hex_digit :: "nat \<Rightarrow> char" where
  "hex_digit n = (''0123456789abcdef'') ! (n mod 16)"

definition quote_char :: "char \<Rightarrow> string" where
  "quote_char c =
     (if c = CHR 0x22 then [CHR 0x5C, CHR 0x22]
      else if c = CHR 0x5C then [CHR 0x5C, CHR 0x5C]
      else if c = CHR 0x08 then [CHR 0x5C, CHR ''b'']
      else if c = CHR 0x0C then [CHR 0x5C, CHR ''f'']
      else if c = CHR 0x0A then [CHR 0x5C, CHR ''n'']
      else if c = CHR 0x0D then [CHR 0x5C, CHR ''r'']
      else if c = CHR 0x09 then [CHR 0x5C, CHR ''t'']
      else if (of_char c :: nat) < 0x20
        then [CHR 0x5C, CHR ''u'', CHR ''0'', CHR ''0'',
              hex_digit (of_char c div 16), hex_digit (of_char c)]
      else [c])"

definition quote :: "string \<Rightarrow> string" where
  "quote s = CHR 0x22 # concat (map quote_char s) @ [CHR 0x22]"

fun join :: "string \<Rightarrow> string list \<Rightarrow> string" where
  "join sep [] = []"
| "join sep [x] = x"
| "join sep (x # y # ys) = x @ sep @ join sep (y # ys)"

fun stringify :: "string \<Rightarrow> json \<Rightarrow> string" where
  "stringify indent JNull = ''null''"
| "stringify indent (JBool b) = (if b then ''true'' else ''false'')"
| "stringify indent (JString s) = quote s"
| "stringify indent (JArray xs) =
     (if xs = [] then ''[]''
      else let inner = indent @ ''  '' in
        ''['' @ [CHR 0x0A] @ inner
        @ join ('','' @ [CHR 0x0A] @ inner) (map (stringify inner) xs)
        @ [CHR 0x0A] @ indent @ '']'')"
| "stringify indent (JObject ps) =
     (if ps = [] then ''{}''
      else let inner = indent @ ''  '' in
        ''{'' @ [CHR 0x0A] @ inner
        @ join ('','' @ [CHR 0x0A] @ inner)
            (map (\<lambda>p. quote (fst p) @ '': '' @ stringify inner (snd p)) ps)
        @ [CHR 0x0A] @ indent @ ''}'')"

definition JSON_stringify :: "json \<Rightarrow> string" where
  "JSON_stringify v = stringify [] v"

section \<open>Effects: the outside world and thrown values\<close>

text \<open>
  A computation runs in a world \<open>'w\<close> (the network, the file system, the remote
  service), may change it, and either returns a value (\<open>Inr\<close>) or throws (\<open>Inl\<close>).
  \<open>bindE\<close> is sequencing (a throw skips the rest), \<open>try_catch\<close> is
  \<^verbatim>\<open>try { ... } catch (error) { ... }\<close>: the handler starts in the world the body
  left behind, and what the handler throws is not caught. \<open>liftE\<close> runs a step that
  does not touch the world.
\<close>

type_synonym ('w, 'a) eff = "'w \<Rightarrow> (thrown + 'a) \<times> 'w"

definition returnE :: "'a \<Rightarrow> ('w, 'a) eff" where
  "returnE v = (\<lambda>w. (Inr v, w))"

definition throwE :: "thrown \<Rightarrow> ('w, 'a) eff" where
  "throwE e = (\<lambda>w. (Inl e, w))"

definition bindE :: "('w, 'a) eff \<Rightarrow> ('a \<Rightarrow> ('w, 'b) eff) \<Rightarrow> ('w, 'b) eff" where
  "bindE m f = (\<lambda>w. case m w of (Inl e, w') \<Rightarrow> (Inl e, w') | (Inr v, w') \<Rightarrow> f v w')"

definition liftE :: "thrown + 'a \<Rightarrow> ('w, 'a) eff" where
  "liftE r = (\<lambda>w. (r, w))"

definition try_catch :: "('w, 'a) eff \<Rightarrow> (thrown \<Rightarrow> ('w, 'a) eff) \<Rightarrow> ('w, 'a) eff" where
  "try_catch body handler =
     (\<lambda>w. case body w of (Inl e, w') \<Rightarrow> handler e w' | (Inr v, w') \<Rightarrow> (Inr v, w'))"

section \<open>The tether-name SDK, as the server uses it\<close>

text \<open>
  The SDK is an external package; the server calls its constructor and four methods.
  They are parameters of the model: each may change the world and may throw any value.
  What they return has the type the SDK declares: a string for a challenge or a proof,
  a JSON value for a verification result (a result of \<^verbatim>\<open>undefined\<close>, which
  \<^verbatim>\<open>JSON.stringify\<close> would not turn into a text, is outside the model). \<open>'c\<close> is the
  type of client objects.
\<close>

record client_options =
  credentialId :: string
  privateKeyPath :: string

record ('w, 'c) sdk =
  new_TetherClient :: "client_options \<Rightarrow> ('w, 'c) eff"
  verify :: "'c \<Rightarrow> ('w, json) eff"
  requestChallenge :: "'c \<Rightarrow> ('w, string) eff"
  sign :: "'c \<Rightarrow> string \<Rightarrow> ('w, string) eff"
  submitProof :: "'c \<Rightarrow> string \<Rightarrow> string \<Rightarrow> ('w, json) eff"

section \<open>The tool handlers of createServer\<close>

text \<open>
  A tool result: \<^verbatim>\<open>{ content: [{ type: "text", text }], isError? }\<close>. A success result
  has no \<^verbatim>\<open>isError\<close> key (\<open>None\<close>); an error result has \<^verbatim>\<open>isError: true\<close>. In each
  \<^verbatim>\<open>catch\<close> block the message is computed first, outside any \<^verbatim>\<open>try\<close>: if that throws,
  the handler throws.
\<close>

record content_item =
  item_type :: string
  item_text :: string

record envelope =
  content :: "content_item list"
  isError :: "bool option"

definition success :: "string \<Rightarrow> envelope" where
  "success t = \<lparr>content = [\<lparr>item_type = ''text'', item_text = t\<rparr>], isError = None\<rparr>"

definition failure :: "string \<Rightarrow> envelope" where
  "failure t = \<lparr>content = [\<lparr>item_type = ''text'', item_text = t\<rparr>], isError = Some True\<rparr>"

text \<open>
  \<^verbatim>\<open>getClient\<close> (index.ts, lines 12 to 31). In the last branch both variables are
  strings: the two checks before it excluded \<^verbatim>\<open>undefined\<close>.
\<close>

definition getClient :: "('w, 'c) sdk \<Rightarrow> env \<Rightarrow> ('w, 'c) eff" where
  "getClient s env =
     (let credentialId = env ''TETHER_CREDENTIAL_ID'';
          privateKeyPath = env ''TETHER_PRIVATE_KEY_PATH''
      in if js_not credentialId
           then throwE (Error ''TETHER_CREDENTIAL_ID environment variable is required'')
         else if js_not privateKeyPath
           then throwE (Error ''TETHER_PRIVATE_KEY_PATH environment variable is required'')
         else new_TetherClient s
                \<lparr>credentialId = the credentialId, privateKeyPath = the privateKeyPath\<rparr>)"

text \<open>\<^verbatim>\<open>verify_identity\<close> (lines 39 to 54).\<close>

definition verify_identity :: "('w, 'c) sdk \<Rightarrow> env \<Rightarrow> ('w, envelope) eff" where
  "verify_identity s env =
     try_catch
       (bindE (getClient s env) (\<lambda>client.
        bindE (verify s client) (\<lambda>result.
        returnE (success (JSON_stringify result)))))
       (\<lambda>error.
          bindE (liftE (message_of error)) (\<lambda>message.
          returnE (failure (''Verification failed: '' @ message))))"

text \<open>\<^verbatim>\<open>request_challenge\<close> (lines 63 to 82).\<close>

definition request_challenge :: "('w, 'c) sdk \<Rightarrow> env \<Rightarrow> ('w, envelope) eff" where
  "request_challenge s env =
     try_catch
       (bindE (getClient s env) (\<lambda>client.
        bindE (requestChallenge s client) (\<lambda>challenge.
        returnE (success (JSON_stringify (JObject [(''challenge'', JString challenge)]))))))
       (\<lambda>error.
          bindE (liftE (message_of error)) (\<lambda>message.
          returnE (failure (''Failed to request challenge: '' @ message))))"

text \<open>\<^verbatim>\<open>sign_challenge\<close> (lines 94 to 113).\<close>

definition sign_challenge :: "('w, 'c) sdk \<Rightarrow> env \<Rightarrow> string \<Rightarrow> ('w, envelope) eff" where
  "sign_challenge s env challenge =
     try_catch
       (bindE (getClient s env) (\<lambda>client.
        bindE (sign s client challenge) (\<lambda>proof.
        returnE (success (JSON_stringify (JObject [(''proof'', JString proof)]))))))
       (\<lambda>error.
          bindE (liftE (message_of error)) (\<lambda>message.
          returnE (failure (''Failed to sign challenge: '' @ message))))"

text \<open>\<^verbatim>\<open>submit_proof\<close> (lines 130 to 147).\<close>

definition submit_proof ::
  "('w, 'c) sdk \<Rightarrow> env \<Rightarrow> string \<Rightarrow> string \<Rightarrow> ('w, envelope) eff" where
  "submit_proof s env challenge proof =
     try_catch
       (bindE (getClient s env) (\<lambda>client.
        bindE (submitProof s client challenge proof) (\<lambda>result.
        returnE (success (JSON_stringify result)))))
       (\<lambda>error.
          bindE (liftE (message_of error)) (\<lambda>message.
          returnE (failure (''Failed to submit proof: '' @ message))))"

text \<open>
  \<^verbatim>\<open>get_credential_info\<close> (lines 156 to 176): no SDK call and no \<^verbatim>\<open>try\<close>. The object
  it serialises has three properties.
\<close>

definition credential_info :: "env \<Rightarrow> json" where
  "credential_info env =
     (let credentialId = env ''TETHER_CREDENTIAL_ID'';
          privateKeyPath = env ''TETHER_PRIVATE_KEY_PATH''
      in JObject
          [(''credentialId'', JString (js_or credentialId ''(not set)'')),
           (''privateKeyPath'', JString (js_or privateKeyPath ''(not set)'')),
           (''configured'', JBool (\<not> js_not credentialId \<and> \<not> js_not privateKeyPath))])"

definition get_credential_info :: "env \<Rightarrow> ('w, envelope) eff" where
  "get_credential_info env = returnE (success (JSON_stringify (credential_info env)))"

text \<open>
  A call of one of the five tools with arguments that passed the input schema, and the
  handler registered for it.
\<close>

datatype tool_call =
    Verify_identity
  | Request_challenge
  | Sign_challenge string
  | Submit_proof string string
  | Get_credential_info

fun tool_name_of :: "tool_call \<Rightarrow> string" where
  "tool_name_of Verify_identity = ''verify_identity''"
| "tool_name_of Request_challenge = ''request_challenge''"
| "tool_name_of (Sign_challenge challenge) = ''sign_challenge''"
| "tool_name_of (Submit_proof challenge proof) = ''submit_proof''"
| "tool_name_of Get_credential_info = ''get_credential_info''"

fun call_handler :: "('w, 'c) sdk \<Rightarrow> env \<Rightarrow> tool_call \<Rightarrow> ('w, envelope) eff" where
  "call_handler s env Verify_identity = verify_identity s env"
| "call_handler s env Request_challenge = request_challenge s env"
| "call_handler s env (Sign_challenge challenge) = sign_challenge s env challenge"
| "call_handler s env (Submit_proof challenge proof) = submit_proof s env challenge proof"
| "call_handler s env Get_credential_info = get_credential_info env"

section \<open>Tool registration and listing\<close>

text \<open>
  \<^verbatim>\<open>createServer\<close> registers five tools on a fresh \<^verbatim>\<open>McpServer\<close>. An input schema is
  an object of zod types; \<^verbatim>\<open>z.string()\<close> is a required string, \<^verbatim>\<open>.describe\<close> attaches
  a text and \<^verbatim>\<open>.optional()\<close> would make a field optional. \<^verbatim>\<open>registerTool\<close> throws on a
  name that is registered already. Listing gives, per tool, its name, its description
  and the JSON schema of its input: the property names and those that are required.
\<close>

datatype zod =
    z_string
  | z_describe zod string
  | z_optional zod

fun is_optional :: "zod \<Rightarrow> bool" where
  "is_optional z_string = False"
| "is_optional (z_describe t d) = is_optional t"
| "is_optional (z_optional t) = True"

record tool =
  tool_name :: string
  description :: string
  inputSchema :: "(string \<times> zod) list option"

record mcp_server =
  server_name :: string
  server_version :: string
  registered :: "tool list"

definition registerTool ::
  "string \<Rightarrow> string \<Rightarrow> (string \<times> zod) list option \<Rightarrow> (mcp_server, unit) eff" where
  "registerTool name descr schema =
     (\<lambda>server.
        if name \<in> set (map tool_name (registered server))
        then (Inl (Error (''Tool '' @ name @ '' is already registered'')), server)
        else (Inr (),
              server\<lparr>registered := registered server
                 @ [\<lparr>tool_name = name, description = descr, inputSchema = schema\<rparr>]\<rparr>))"

definition createServer :: "thrown + mcp_server" where
  "createServer =
     (case
        (bindE (registerTool ''verify_identity''
           ''Perform complete identity verification in one call. Requests a challenge, signs it with the configured private key, and submits the proof to tether.name for verification.''
           None) (\<lambda>_.
         bindE (registerTool ''request_challenge''
           ''Request a new challenge string from the tether.name API. This challenge must be signed and submitted back for verification.''
           None) (\<lambda>_.
         bindE (registerTool ''sign_challenge''
           ''Sign a challenge string using the configured RSA private key. Returns a URL-safe base64 encoded signature.''
           (Some [(''challenge'', z_describe z_string ''The challenge string to sign'')])) (\<lambda>_.
         bindE (registerTool ''submit_proof''
           ''Submit a signed proof for a challenge to the tether.name API for verification.''
           (Some [(''challenge'',
                   z_describe z_string ''The original challenge string from request_challenge''),
                  (''proof'', z_describe z_string ''The signed proof from sign_challenge'')])) (\<lambda>_.
         registerTool ''get_credential_info''
           ''Get information about the currently configured tether.name credential. Returns the credential ID and key path.''
           None)))))
        \<lparr>server_name = ''tether-name-mcp-server'', server_version = ''1.0.2'', registered = []\<rparr>
      of (Inl e, server) \<Rightarrow> Inl e
       | (Inr u, server) \<Rightarrow> Inr server)"

record listed_tool =
  listed_name :: string
  listed_description :: string
  properties :: "string list"
  required :: "string list"

definition list_tool :: "tool \<Rightarrow> listed_tool" where
  "list_tool t =
     (let fields = (case inputSchema t of None \<Rightarrow> [] | Some fs \<Rightarrow> fs)
      in \<lparr>listed_name = tool_name t,
          listed_description = description t,
          properties = map fst fields,
          required = map fst (filter (\<lambda>f. \<not> is_optional (snd f)) fields)\<rparr>)"

definition listTools :: "mcp_server \<Rightarrow> listed_tool list" where
  "listTools server = map list_tool (registered server)"

definition find_tool :: "string \<Rightarrow> listed_tool list \<Rightarrow> listed_tool option" where
  "find_tool name ts = find (\<lambda>t. listed_name t = name) ts"

section \<open>What an operation computes\<close>

text \<open>
  For stating what the handlers do with failures: the computation inside the
  \<^verbatim>\<open>try\<close> block of each tool up to the value that is serialised, and the prefix its
  \<^verbatim>\<open>catch\<close> block puts before the message. \<^verbatim>\<open>get_credential_info\<close> has neither a
  \<^verbatim>\<open>try\<close> nor a prefix.
\<close>

fun operation :: "('w, 'c) sdk \<Rightarrow> env \<Rightarrow> tool_call \<Rightarrow> ('w, json) eff" where
  "operation s env Verify_identity = bindE (getClient s env) (verify s)"
| "operation s env Request_challenge =
     bindE (getClient s env) (\<lambda>client.
     bindE (requestChallenge s client) (\<lambda>challenge.
     returnE (JObject [(''challenge'', JString challenge)])))"
| "operation s env (Sign_challenge challenge) =
     bindE (getClient s env) (\<lambda>client.
     bindE (sign s client challenge) (\<lambda>proof.
     returnE (JObject [(''proof'', JString proof)])))"
| "operation s env (Submit_proof challenge proof) =
     bindE (getClient s env) (\<lambda>client. submitProof s client challenge proof)"
| "operation s env Get_credential_info = returnE (credential_info env)"

fun error_prefix :: "tool_call \<Rightarrow> string" where
  "error_prefix Verify_identity = ''Verification failed: ''"
| "error_prefix Request_challenge = ''Failed to request challenge: ''"
| "error_prefix (Sign_challenge challenge) = ''Failed to sign challenge: ''"
| "error_prefix (Submit_proof challenge proof) = ''Failed to submit proof: ''"
| "error_prefix Get_credential_info = []"

fun delegating :: "tool_call \<Rightarrow> bool" where
  "delegating Get_credential_info = False"
| "delegating call = True"

text \<open>The text of the first content item, as the tests read it (\<^verbatim>\<open>content[0].text\<close>).\<close>

definition first_text :: "envelope \<Rightarrow> string" where
  "first_text r = (case content r of [] \<Rightarrow> [] | c # cs \<Rightarrow> item_text c)"

section \<open>The verification orchestrator of the specification\<close>

text \<open>
  Modelled from the spec: the \<^verbatim>\<open>verify\<close> method of the tether-name SDK, which the
  \<^verbatim>\<open>verify_identity\<close> handler calls and which is not part of the sources. The
  specification (4.1 to 4.4) gives its components and its sequence:
  \<^verbatim>\<open>challenge = requestChallenge(config); proof = sign(loadKey(config.privateKeyPath),
  challenge); return submitProof(config, challenge, proof)\<close>. The challenge client and
  the key store act on the world; the signer is a pure function of key and challenge
  that may fail.
\<close>

record credential_config = client_options +
  baseUrl :: string

record ('w, 'k) core =
  core_requestChallenge :: "credential_config \<Rightarrow> ('w, string) eff"
  loadKey :: "string \<Rightarrow> ('w, 'k) eff"
  core_sign :: "'k \<Rightarrow> string \<Rightarrow> thrown + string"
  core_submitProof :: "credential_config \<Rightarrow> string \<Rightarrow> string \<Rightarrow> ('w, json) eff"

definition orchestrator_verify :: "('w, 'k) core \<Rightarrow> credential_config \<Rightarrow> ('w, json) eff" where
  "orchestrator_verify c config =
     bindE (core_requestChallenge c config) (\<lambda>challenge.
     bindE (loadKey c (privateKeyPath config)) (\<lambda>key.
     bindE (\<lambda>w. (core_sign c key challenge, w)) (\<lambda>proof.
     core_submitProof c config challenge proof)))"

section \<open>Stand-ins for the SDK\<close>

text \<open>
  Concrete SDKs on which the theorems below are instantiated. Their world is the log
  of the calls made so far. \<open>demo_core\<close> answers every call; \<open>offline_core\<close> fails at
  the challenge request with an \<^verbatim>\<open>Error\<close>; \<open>unprintable_core\<close> fails there with
  \<^verbatim>\<open>Object.create(null)\<close>, a value that \<^verbatim>\<open>String\<close> cannot convert. \<open>sdk_of_core\<close> is the
  SDK the specification describes: the client object is the configuration, with the
  default base URL.
\<close>

definition demo_core :: "(string list, string) core" where
  "demo_core =
     \<lparr>core_requestChallenge = (\<lambda>config w. (Inr ''nonce-1'', w @ [''requestChallenge''])),
      loadKey = (\<lambda>path w. (Inr (''key@'' @ path), w @ [''loadKey''])),
      core_sign = (\<lambda>key challenge. Inr (''sig<'' @ challenge @ ''>'')),
      core_submitProof =
        (\<lambda>config challenge proof w.
           (Inr (JObject [(''verified'', JBool True)]), w @ [''submitProof'']))\<rparr>"

definition offline_core :: "(string list, string) core" where
  "offline_core =
     demo_core\<lparr>core_requestChallenge :=
       (\<lambda>config w. (Inl (Error ''fetch failed''), w @ [''requestChallenge'']))\<rparr>"

definition unprintable_core :: "(string list, string) core" where
  "unprintable_core =
     demo_core\<lparr>core_requestChallenge :=
       (\<lambda>config w.
          (Inl (Unprintable (Error ''Cannot convert object to primitive value'')),
           w @ [''requestChallenge'']))\<rparr>"

definition sdk_of_core :: "('w, 'k) core \<Rightarrow> ('w, credential_config) sdk" where
  "sdk_of_core c =
     \<lparr>new_TetherClient =
        (\<lambda>options. returnE
           \<lparr>credentialId = credentialId options, privateKeyPath = privateKeyPath options,
            baseUrl = ''https://api.tether.name''\<rparr>),
      verify = orchestrator_verify c,
      requestChallenge = core_requestChallenge c,
      sign = (\<lambda>config challenge.
                bindE (loadKey c (privateKeyPath config)) (\<lambda>key w.
                  (core_sign c key challenge, w))),
      submitProof = core_submitProof c\<rparr>"

definition test_env :: env where
  "test_env =
     [''TETHER_CREDENTIAL_ID'' \<mapsto> ''test-credential-id'',
      ''TETHER_PRIVATE_KEY_PATH'' \<mapsto> ''/tmp/test-key.der'']"

section \<open>Basic facts\<close>

lemma returnE_apply: "returnE v w = (Inr v, w)"
  by (simp add: returnE_def)

lemma throwE_apply: "throwE e w = (Inl e, w)"
  by (simp add: throwE_def)

lemma bindE_throws: "m w = (Inl e, w') \<Longrightarrow> bindE m f w = (Inl e, w')"
  by (simp add: bindE_def)

lemma bindE_returns: "m w = (Inr v, w') \<Longrightarrow> bindE m f w = f v w'"
  by (simp add: bindE_def)

lemma try_catch_throws: "body w = (Inl e, w') \<Longrightarrow> try_catch body h w = h e w'"
  by (simp add: try_catch_def)

lemma try_catch_returns: "body w = (Inr v, w') \<Longrightarrow> try_catch body h w = (Inr v, w')"
  by (simp add: try_catch_def)

lemma liftE_apply: "liftE r w = (r, w)"
  by (simp add: liftE_def)

lemma message_of_simps:
  "message_of (Error m) = Inr m" "message_of (NonError s) = Inr s"
  "message_of (Unprintable t) = Inl t"
  by (simp_all add: message_of_def)

lemma js_not_simps:
  "js_not None" "js_not (Some s) = (s = [])"
  by (simp_all add: js_not_def)

lemma js_or_simps:
  "js_or None d = d" "js_or (Some []) d = d" "s \<noteq> [] \<Longrightarrow> js_or (Some s) d = s"
  by (simp_all add: js_or_def)

lemma str_includes_sublist: "str_includes hay needle = sublist needle hay"
  by (induction hay) (auto simp: sublist_Cons_right)

lemma str_includes_middle: "str_includes (before @ needle @ after) needle"
  by (simp add: str_includes_sublist)

lemma getClient_no_credentialId:
  "js_not (env ''TETHER_CREDENTIAL_ID'') \<Longrightarrow>
   getClient s env w = (Inl (Error ''TETHER_CREDENTIAL_ID environment variable is required''), w)"
  by (simp add: getClient_def throwE_apply)

lemma getClient_no_privateKeyPath:
  "\<not> js_not (env ''TETHER_CREDENTIAL_ID'') \<Longrightarrow> js_not (env ''TETHER_PRIVATE_KEY_PATH'') \<Longrightarrow>
   getClient s env w =
     (Inl (Error ''TETHER_PRIVATE_KEY_PATH environment variable is required''), w)"
  by (simp add: getClient_def throwE_apply Let_def)

lemma getClient_configured:
  "\<not> js_not (env ''TETHER_CREDENTIAL_ID'') \<Longrightarrow> \<not> js_not (env ''TETHER_PRIVATE_KEY_PATH'') \<Longrightarrow>
   getClient s env =
     new_TetherClient s
       \<lparr>credentialId = the (env ''TETHER_CREDENTIAL_ID''),
        privateKeyPath = the (env ''TETHER_PRIVATE_KEY_PATH'')\<rparr>"
  by (simp add: getClient_def Let_def)

lemma call_handler_operation:
  "call_handler s env call w =
     (case operation s env call w of
        (Inl e, w') \<Rightarrow>
          (case message_of e of
             Inl t \<Rightarrow> (Inl t, w')
           | Inr m \<Rightarrow> (Inr (failure (error_prefix call @ m)), w'))
      | (Inr v, w') \<Rightarrow> (Inr (success (JSON_stringify v)), w'))"
  by (cases call)
     (auto simp: verify_identity_def request_challenge_def sign_challenge_def
        submit_proof_def get_credential_info_def try_catch_def bindE_def returnE_def
        liftE_def split: prod.splits sum.splits)

lemma operation_getClient_throws:
  "delegating call \<Longrightarrow> getClient s env w = (Inl e, w') \<Longrightarrow>
   operation s env call w = (Inl e, w')"
  by (cases call) (simp_all add: bindE_throws)

lemma call_handler_getClient_throws:
  "delegating call \<Longrightarrow> getClient s env w = (Inl (Error m), w') \<Longrightarrow>
   call_handler s env call w = (Inr (failure (error_prefix call @ m)), w')"
  by (simp add: call_handler_operation operation_getClient_throws message_of_simps)

lemma first_text_simps:
  "first_text (failure t) = t" "first_text (success t) = t"
  by (simp_all add: first_text_def failure_def success_def)

lemma isError_simps:
  "isError (failure t) = Some True" "isError (success t) = None"
  by (simp_all add: failure_def success_def)

lemma no_full_key_name_in_credential_error:
  "delegating call \<Longrightarrow>
   \<not> str_includes (error_prefix call @ ''TETHER_CREDENTIAL_ID environment variable is required'')
       ''TETHER_PRIVATE_KEY_PATH''"
  by (cases call) simp_all

lemma getClient_short_circuit:
  "js_not (env ''TETHER_CREDENTIAL_ID'') \<Longrightarrow>
   getClient s (env(''TETHER_PRIVATE_KEY_PATH'' := v)) = getClient s env"
  by (simp add: getClient_def Let_def)

lemma call_handler_cong_getClient:
  "delegating call \<Longrightarrow> getClient s env = getClient s env' \<Longrightarrow>
   call_handler s env call = call_handler s env' call"
  by (cases call)
     (simp_all add: verify_identity_def request_challenge_def sign_challenge_def
        submit_proof_def)

lemma getClient_empty_string:
  "k = ''TETHER_CREDENTIAL_ID'' \<or> k = ''TETHER_PRIVATE_KEY_PATH'' \<Longrightarrow> env k = Some [] \<Longrightarrow>
   getClient s (env(k := None)) = getClient s env"
  by (auto simp: getClient_def Let_def js_not_def)

lemma credential_info_empty_string:
  "k = ''TETHER_CREDENTIAL_ID'' \<or> k = ''TETHER_PRIVATE_KEY_PATH'' \<Longrightarrow> env k = Some [] \<Longrightarrow>
   credential_info (env(k := None)) = credential_info env"
  by (auto simp: credential_info_def Let_def js_not_def js_or_def)

lemma test_env_simps:
  "test_env ''TETHER_CREDENTIAL_ID'' = Some ''test-credential-id''"
  "test_env ''TETHER_PRIVATE_KEY_PATH'' = Some ''/tmp/test-key.der''"
  by (simp_all add: test_env_def)

lemma getClient_test_env:
  "getClient (sdk_of_core c) test_env w =
     (Inr \<lparr>credentialId = ''test-credential-id'', privateKeyPath = ''/tmp/test-key.der'',
           baseUrl = ''https://api.tether.name''\<rparr>, w)"
  by (simp add: getClient_def Let_def test_env_simps js_not_simps sdk_of_core_def returnE_apply)



section \<open>The claims\<close>

subsection \<open>Missing configuration variables\<close>

text \<open>
  Claim C1, as amended. For each of the four delegating operations: when
  \<^verbatim>\<open>TETHER_CREDENTIAL_ID\<close> is unset, the result is an error envelope whose text is the
  operation's prefix followed by the message naming \<^verbatim>\<open>TETHER_CREDENTIAL_ID\<close> (so it
  contains \<^verbatim>\<open>CREDENTIAL_ID\<close>); when \<^verbatim>\<open>TETHER_PRIVATE_KEY_PATH\<close> is unset and the
  credential ID is set to a non-empty string, the result is an error envelope whose
  text names \<^verbatim>\<open>TETHER_PRIVATE_KEY_PATH\<close>. In both cases the world is untouched: the
  SDK is not called. \<^verbatim>\<open>get_credential_info\<close> returns a success envelope in every
  environment.
\<close>

theorem missing_variable_is_named:
  "(delegating call \<and> env ''TETHER_CREDENTIAL_ID'' = None \<longrightarrow>
      (\<exists>r. call_handler s env call w = (Inr r, w) \<and> isError r = Some True
         \<and> first_text r
             = error_prefix call @ ''TETHER_CREDENTIAL_ID environment variable is required''
         \<and> str_includes (first_text r) ''CREDENTIAL_ID''))
   \<and> (delegating call \<and> env ''TETHER_PRIVATE_KEY_PATH'' = None
        \<and> \<not> js_not (env ''TETHER_CREDENTIAL_ID'') \<longrightarrow>
      (\<exists>r. call_handler s env call w = (Inr r, w) \<and> isError r = Some True
         \<and> first_text r
             = error_prefix call @ ''TETHER_PRIVATE_KEY_PATH environment variable is required''
         \<and> str_includes (first_text r) ''PRIVATE_KEY_PATH''))
   \<and> (\<exists>r. call_handler s env Get_credential_info w = (Inr r, w) \<and> isError r = None)"
proof (intro conjI impI)
  assume a: "delegating call \<and> env ''TETHER_CREDENTIAL_ID'' = None"
  have "str_includes
      ((error_prefix call @ ''TETHER_'') @ ''CREDENTIAL_ID'' @ '' environment variable is required'')
      ''CREDENTIAL_ID''"
    by (rule str_includes_middle)
  then have inc: "str_includes
      (error_prefix call @ ''TETHER_CREDENTIAL_ID environment variable is required'') ''CREDENTIAL_ID''"
    by simp
  from a have "call_handler s env call w =
      (Inr (failure (error_prefix call
         @ ''TETHER_CREDENTIAL_ID environment variable is required'')), w)"
    using call_handler_getClient_throws [OF _ getClient_no_credentialId, of call env s w]
    by (simp add: js_not_simps message_of_simps)
  with inc show "\<exists>r. call_handler s env call w = (Inr r, w) \<and> isError r = Some True
         \<and> first_text r
             = error_prefix call @ ''TETHER_CREDENTIAL_ID environment variable is required''
         \<and> str_includes (first_text r) ''CREDENTIAL_ID''"
    by (simp add: first_text_simps isError_simps)
next
  assume a: "delegating call \<and> env ''TETHER_PRIVATE_KEY_PATH'' = None
        \<and> \<not> js_not (env ''TETHER_CREDENTIAL_ID'')"
  have "str_includes
      ((error_prefix call @ ''TETHER_'') @ ''PRIVATE_KEY_PATH'' @ '' environment variable is required'')
      ''PRIVATE_KEY_PATH''"
    by (rule str_includes_middle)
  then have inc: "str_includes
      (error_prefix call @ ''TETHER_PRIVATE_KEY_PATH environment variable is required'') ''PRIVATE_KEY_PATH''"
    by simp
  from a have "call_handler s env call w =
      (Inr (failure (error_prefix call
         @ ''TETHER_PRIVATE_KEY_PATH environment variable is required'')), w)"
    using call_handler_getClient_throws [OF _ getClient_no_privateKeyPath, of call env s w]
    by (simp add: js_not_simps message_of_simps)
  with inc show "\<exists>r. call_handler s env call w = (Inr r, w) \<and> isError r = Some True
         \<and> first_text r
             = error_prefix call @ ''TETHER_PRIVATE_KEY_PATH environment variable is required''
         \<and> str_includes (first_text r) ''PRIVATE_KEY_PATH''"
    by (simp add: first_text_simps isError_simps)
next
  show "\<exists>r. call_handler s env Get_credential_info w = (Inr r, w) \<and> isError r = None"
    by (simp add: get_credential_info_def returnE_apply isError_simps)
qed

text \<open>
  Claim C1, the amended statement at concrete inputs: \<^verbatim>\<open>verify_identity\<close> with only the
  key path set, and \<^verbatim>\<open>sign_challenge\<close> with only the credential ID set.
\<close>

theorem missing_variable_is_named_witness:
  "delegating Verify_identity
   \<and> [''TETHER_PRIVATE_KEY_PATH'' \<mapsto> ''/tmp/test-key.der''] ''TETHER_CREDENTIAL_ID'' = None
   \<and> (\<exists>r. call_handler (sdk_of_core demo_core)
            [''TETHER_PRIVATE_KEY_PATH'' \<mapsto> ''/tmp/test-key.der''] Verify_identity []
          = (Inr r, [])
        \<and> isError r = Some True
        \<and> first_text r
            = ''Verification failed: TETHER_CREDENTIAL_ID environment variable is required'')
   \<and> delegating (Sign_challenge ''test-challenge'')
   \<and> [''TETHER_CREDENTIAL_ID'' \<mapsto> ''test-credential-id''] ''TETHER_PRIVATE_KEY_PATH'' = None
   \<and> \<not> js_not ([''TETHER_CREDENTIAL_ID'' \<mapsto> ''test-credential-id''] ''TETHER_CREDENTIAL_ID'')
   \<and> (\<exists>r. call_handler (sdk_of_core demo_core)
            [''TETHER_CREDENTIAL_ID'' \<mapsto> ''test-credential-id'']
            (Sign_challenge ''test-challenge'') []
          = (Inr r, [])
        \<and> isError r = Some True
        \<and> first_text r
            = ''Failed to sign challenge: TETHER_PRIVATE_KEY_PATH environment variable is required'')"
proof -
  let ?e1 = "[''TETHER_PRIVATE_KEY_PATH'' \<mapsto> ''/tmp/test-key.der''] :: env"
  let ?e2 = "[''TETHER_CREDENTIAL_ID'' \<mapsto> ''test-credential-id''] :: env"
  have h1: "delegating Verify_identity \<and> ?e1 ''TETHER_CREDENTIAL_ID'' = None"
    by simp
  have h2: "delegating (Sign_challenge ''test-challenge'')
      \<and> ?e2 ''TETHER_PRIVATE_KEY_PATH'' = None \<and> \<not> js_not (?e2 ''TETHER_CREDENTIAL_ID'')"
    by (simp add: js_not_simps)
  from missing_variable_is_named [of Verify_identity ?e1 "sdk_of_core demo_core" "[]"] h1
  have r1: "\<exists>r. call_handler (sdk_of_core demo_core) ?e1 Verify_identity [] = (Inr r, [])
        \<and> isError r = Some True
        \<and> first_text r
            = ''Verification failed: TETHER_CREDENTIAL_ID environment variable is required''"
    by auto
  from missing_variable_is_named
    [of "Sign_challenge ''test-challenge''" ?e2 "sdk_of_core demo_core" "[]"] h2
  have r2: "\<exists>r. call_handler (sdk_of_core demo_core) ?e2
            (Sign_challenge ''test-challenge'') [] = (Inr r, [])
        \<and> isError r = Some True
        \<and> first_text r
            = ''Failed to sign challenge: TETHER_PRIVATE_KEY_PATH environment variable is required''"
    by auto
  from h1 h2 r1 r2 show ?thesis
    by blast
qed

text \<open>
  Claim C1 as first stated fails: with both variables unset the key path is unset, yet
  the text \<^verbatim>\<open>verify_identity\<close> returns does not contain \<^verbatim>\<open>PRIVATE_KEY_PATH\<close>.
\<close>

theorem key_path_not_named_when_both_unset:
  "(Map.empty :: env) ''TETHER_PRIVATE_KEY_PATH'' = None
   \<and> call_handler (sdk_of_core demo_core) Map.empty Verify_identity [] =
       (Inr \<lparr>content =
              [\<lparr>item_type = ''text'',
                item_text =
                  ''Verification failed: TETHER_CREDENTIAL_ID environment variable is required''\<rparr>],
             isError = Some True\<rparr>,
        [])
   \<and> \<not> str_includes
         ''Verification failed: TETHER_CREDENTIAL_ID environment variable is required''
         ''PRIVATE_KEY_PATH''"
proof -
  have "getClient (sdk_of_core demo_core) Map.empty []
      = (Inl (Error ''TETHER_CREDENTIAL_ID environment variable is required''), [])"
    by (simp add: getClient_no_credentialId js_not_simps)
  then have "call_handler (sdk_of_core demo_core) Map.empty Verify_identity [] =
      (Inr (failure
        (''Verification failed: '' @ ''TETHER_CREDENTIAL_ID environment variable is required'')),
       [])"
    using call_handler_getClient_throws
      [of Verify_identity "sdk_of_core demo_core" Map.empty "[]"]
    by (simp add: message_of_simps)
  then show ?thesis
    by (simp add: failure_def)
qed

text \<open>
  Claim C10. With both variables unset, each delegating operation returns an error
  envelope whose text names \<^verbatim>\<open>TETHER_CREDENTIAL_ID\<close> and does not contain
  \<^verbatim>\<open>TETHER_PRIVATE_KEY_PATH\<close>; the key path is not looked at: whatever value it is
  given, the result is the same.
\<close>

theorem credential_check_comes_first:
  assumes "delegating call"
    and "env ''TETHER_CREDENTIAL_ID'' = None"
    and "env ''TETHER_PRIVATE_KEY_PATH'' = None"
  shows "\<exists>r. call_handler s env call w = (Inr r, w) \<and> isError r = Some True
           \<and> first_text r
               = error_prefix call @ ''TETHER_CREDENTIAL_ID environment variable is required''
           \<and> str_includes (first_text r) ''TETHER_CREDENTIAL_ID''
           \<and> \<not> str_includes (first_text r) ''TETHER_PRIVATE_KEY_PATH''
           \<and> (\<forall>v. call_handler s (env(''TETHER_PRIVATE_KEY_PATH'' := v)) call w
                  = call_handler s env call w)"
proof -
  let ?t = "error_prefix call @ ''TETHER_CREDENTIAL_ID environment variable is required''"
  have unset: "js_not (env ''TETHER_CREDENTIAL_ID'')"
    using assms(2) by (simp add: js_not_simps)
  have "getClient s env w
      = (Inl (Error ''TETHER_CREDENTIAL_ID environment variable is required''), w)"
    using unset by (rule getClient_no_credentialId)
  with assms(1) have run: "call_handler s env call w = (Inr (failure ?t), w)"
    by (simp add: call_handler_getClient_throws message_of_simps)
  have "str_includes (error_prefix call @ ''TETHER_CREDENTIAL_ID''
          @ '' environment variable is required'') ''TETHER_CREDENTIAL_ID''"
    by (rule str_includes_middle)
  then have named: "str_includes ?t ''TETHER_CREDENTIAL_ID''"
    by simp
  have other: "\<not> str_includes ?t ''TETHER_PRIVATE_KEY_PATH''"
    using assms(1) by (rule no_full_key_name_in_credential_error)
  have skip: "call_handler s (env(''TETHER_PRIVATE_KEY_PATH'' := v)) call w
      = call_handler s env call w" for v
  proof -
    have "getClient s (env(''TETHER_PRIVATE_KEY_PATH'' := v)) = getClient s env"
      using unset by (rule getClient_short_circuit)
    with assms(1) show ?thesis
      using call_handler_cong_getClient
        [of call s "env(''TETHER_PRIVATE_KEY_PATH'' := v)" env]
      by simp
  qed
  from run named other skip show ?thesis
    by (simp add: first_text_simps isError_simps)
qed

text \<open>
  Claim C10 at a concrete input: \<^verbatim>\<open>request_challenge\<close> in the empty environment.
\<close>

theorem credential_check_comes_first_witness:
  "delegating Request_challenge
   \<and> (Map.empty :: env) ''TETHER_CREDENTIAL_ID'' = None
   \<and> (Map.empty :: env) ''TETHER_PRIVATE_KEY_PATH'' = None
   \<and> (\<exists>r. call_handler (sdk_of_core demo_core) Map.empty Request_challenge [] = (Inr r, [])
         \<and> isError r = Some True
         \<and> first_text r
             = ''Failed to request challenge: TETHER_CREDENTIAL_ID environment variable is required''
         \<and> \<not> str_includes (first_text r) ''TETHER_PRIVATE_KEY_PATH'')"
  using credential_check_comes_first
    [of Request_challenge Map.empty "sdk_of_core demo_core" "[]"]
  by auto

text \<open>
  Claim C9, as amended. A required variable set to the empty string is treated exactly
  like an unset one: every operation behaves as in the environment where the variable
  is removed. An empty credential ID gives the error naming \<^verbatim>\<open>TETHER_CREDENTIAL_ID\<close>;
  an empty key path gives the error naming \<^verbatim>\<open>TETHER_PRIVATE_KEY_PATH\<close> when the
  credential ID is set to a non-empty string; \<^verbatim>\<open>get_credential_info\<close> reports
  \<^verbatim>\<open>(not set)\<close> for the empty variable and \<^verbatim>\<open>configured: false\<close>.
\<close>

theorem empty_string_is_unset:
  assumes "k = ''TETHER_CREDENTIAL_ID'' \<or> k = ''TETHER_PRIVATE_KEY_PATH''"
    and "env k = Some []"
  shows "call_handler s env call = call_handler s (env(k := None)) call
    \<and> (k = ''TETHER_CREDENTIAL_ID'' \<and> delegating call \<longrightarrow>
         call_handler s env call w =
           (Inr (failure (error_prefix call
              @ ''TETHER_CREDENTIAL_ID environment variable is required'')), w))
    \<and> (k = ''TETHER_PRIVATE_KEY_PATH'' \<and> delegating call
         \<and> \<not> js_not (env ''TETHER_CREDENTIAL_ID'') \<longrightarrow>
         call_handler s env call w =
           (Inr (failure (error_prefix call
              @ ''TETHER_PRIVATE_KEY_PATH environment variable is required'')), w))
    \<and> (k = ''TETHER_CREDENTIAL_ID'' \<longrightarrow>
         credential_info env = JObject
           [(''credentialId'', JString ''(not set)''),
            (''privateKeyPath'', JString (js_or (env ''TETHER_PRIVATE_KEY_PATH'') ''(not set)'')),
            (''configured'', JBool False)])
    \<and> (k = ''TETHER_PRIVATE_KEY_PATH'' \<longrightarrow>
         credential_info env = JObject
           [(''credentialId'', JString (js_or (env ''TETHER_CREDENTIAL_ID'') ''(not set)'')),
            (''privateKeyPath'', JString ''(not set)''),
            (''configured'', JBool False)])"
proof (intro conjI impI)
  show "call_handler s env call = call_handler s (env(k := None)) call"
  proof (cases "delegating call")
    case True
    have "getClient s (env(k := None)) = getClient s env"
      using assms by (rule getClient_empty_string)
    with True show ?thesis
      using call_handler_cong_getClient [of call s "env(k := None)" env]
      by simp
  next
    case False
    then have "call = Get_credential_info"
      by (cases call) simp_all
    moreover have "credential_info (env(k := None)) = credential_info env"
      using assms by (rule credential_info_empty_string)
    ultimately show ?thesis
      by (simp add: get_credential_info_def)
  qed
next
  assume a: "k = ''TETHER_CREDENTIAL_ID'' \<and> delegating call"
  with assms(2) have "js_not (env ''TETHER_CREDENTIAL_ID'')"
    by (simp add: js_not_simps)
  then have "getClient s env w
      = (Inl (Error ''TETHER_CREDENTIAL_ID environment variable is required''), w)"
    by (rule getClient_no_credentialId)
  with a show "call_handler s env call w =
           (Inr (failure (error_prefix call
              @ ''TETHER_CREDENTIAL_ID environment variable is required'')), w)"
    by (simp add: call_handler_getClient_throws message_of_simps)
next
  assume a: "k = ''TETHER_PRIVATE_KEY_PATH'' \<and> delegating call
         \<and> \<not> js_not (env ''TETHER_CREDENTIAL_ID'')"
  with assms(2) have "js_not (env ''TETHER_PRIVATE_KEY_PATH'')"
    by (simp add: js_not_simps)
  with a have "getClient s env w
      = (Inl (Error ''TETHER_PRIVATE_KEY_PATH environment variable is required''), w)"
    by (simp add: getClient_no_privateKeyPath)
  with a show "call_handler s env call w =
           (Inr (failure (error_prefix call
              @ ''TETHER_PRIVATE_KEY_PATH environment variable is required'')), w)"
    by (simp add: call_handler_getClient_throws message_of_simps)
next
  assume "k = ''TETHER_CREDENTIAL_ID''"
  with assms(2) show "credential_info env = JObject
           [(''credentialId'', JString ''(not set)''),
            (''privateKeyPath'', JString (js_or (env ''TETHER_PRIVATE_KEY_PATH'') ''(not set)'')),
            (''configured'', JBool False)]"
    by (simp add: credential_info_def Let_def js_not_simps js_or_simps)
next
  assume "k = ''TETHER_PRIVATE_KEY_PATH''"
  with assms(2) show "credential_info env = JObject
           [(''credentialId'', JString (js_or (env ''TETHER_CREDENTIAL_ID'') ''(not set)'')),
            (''privateKeyPath'', JString ''(not set)''),
            (''configured'', JBool False)]"
    by (simp add: credential_info_def Let_def js_not_simps js_or_simps)
qed

text \<open>
  Claim C9, the amended statement at concrete inputs: an empty credential ID beside a
  key path, and an empty key path beside a credential ID.
\<close>

theorem empty_string_is_unset_witness:
  "[''TETHER_CREDENTIAL_ID'' \<mapsto> [], ''TETHER_PRIVATE_KEY_PATH'' \<mapsto> ''/tmp/test-key.der'']
      ''TETHER_CREDENTIAL_ID'' = Some []
   \<and> call_handler (sdk_of_core demo_core)
        [''TETHER_CREDENTIAL_ID'' \<mapsto> [], ''TETHER_PRIVATE_KEY_PATH'' \<mapsto> ''/tmp/test-key.der'']
        Request_challenge []
      = (Inr (failure
          ''Failed to request challenge: TETHER_CREDENTIAL_ID environment variable is required''),
         [])
   \<and> credential_info
        [''TETHER_CREDENTIAL_ID'' \<mapsto> [], ''TETHER_PRIVATE_KEY_PATH'' \<mapsto> ''/tmp/test-key.der'']
      = JObject [(''credentialId'', JString ''(not set)''),
                 (''privateKeyPath'', JString ''/tmp/test-key.der''),
                 (''configured'', JBool False)]
   \<and> [''TETHER_CREDENTIAL_ID'' \<mapsto> ''test-credential-id'', ''TETHER_PRIVATE_KEY_PATH'' \<mapsto> []]
      ''TETHER_PRIVATE_KEY_PATH'' = Some []
   \<and> call_handler (sdk_of_core demo_core)
        [''TETHER_CREDENTIAL_ID'' \<mapsto> ''test-credential-id'', ''TETHER_PRIVATE_KEY_PATH'' \<mapsto> []]
        Request_challenge []
      = (Inr (failure
          ''Failed to request challenge: TETHER_PRIVATE_KEY_PATH environment variable is required''),
         [])
   \<and> credential_info
        [''TETHER_CREDENTIAL_ID'' \<mapsto> ''test-credential-id'', ''TETHER_PRIVATE_KEY_PATH'' \<mapsto> []]
      = JObject [(''credentialId'', JString ''test-credential-id''),
                 (''privateKeyPath'', JString ''(not set)''),
                 (''configured'', JBool False)]"
proof -
  let ?e1 = "[''TETHER_CREDENTIAL_ID'' \<mapsto> [],
              ''TETHER_PRIVATE_KEY_PATH'' \<mapsto> ''/tmp/test-key.der''] :: env"
  let ?e2 = "[''TETHER_CREDENTIAL_ID'' \<mapsto> ''test-credential-id'',
              ''TETHER_PRIVATE_KEY_PATH'' \<mapsto> []] :: env"
  have h1: "?e1 ''TETHER_CREDENTIAL_ID'' = Some []"
    by simp
  have h2: "?e2 ''TETHER_PRIVATE_KEY_PATH'' = Some []"
    by simp
  have k1: "''TETHER_CREDENTIAL_ID'' = ''TETHER_CREDENTIAL_ID''
      \<or> ''TETHER_CREDENTIAL_ID'' = ''TETHER_PRIVATE_KEY_PATH''"
    by simp
  have k2: "''TETHER_PRIVATE_KEY_PATH'' = ''TETHER_CREDENTIAL_ID''
      \<or> ''TETHER_PRIVATE_KEY_PATH'' = ''TETHER_PRIVATE_KEY_PATH''"
    by simp
  note t1 = empty_string_is_unset
    [of "''TETHER_CREDENTIAL_ID''" ?e1 "sdk_of_core demo_core" Request_challenge "[]",
     OF k1 h1, THEN conjunct2]
  note t2 = empty_string_is_unset
    [of "''TETHER_PRIVATE_KEY_PATH''" ?e2 "sdk_of_core demo_core" Request_challenge "[]",
     OF k2 h2, THEN conjunct2]
  have a1: "call_handler (sdk_of_core demo_core) ?e1 Request_challenge []
      = (Inr (failure
          ''Failed to request challenge: TETHER_CREDENTIAL_ID environment variable is required''),
         [])"
    using t1 by simp
  have b1: "credential_info ?e1
      = JObject [(''credentialId'', JString ''(not set)''),
                 (''privateKeyPath'', JString ''/tmp/test-key.der''),
                 (''configured'', JBool False)]"
    using t1 by (simp add: js_or_simps)
  have a2: "call_handler (sdk_of_core demo_core) ?e2 Request_challenge []
      = (Inr (failure
          ''Failed to request challenge: TETHER_PRIVATE_KEY_PATH environment variable is required''),
         [])"
    using t2 by (simp add: js_not_simps)
  have b2: "credential_info ?e2
      = JObject [(''credentialId'', JString ''test-credential-id''),
                 (''privateKeyPath'', JString ''(not set)''),
                 (''configured'', JBool False)]"
    using t2 by (simp add: js_or_simps)
  from h1 h2 a1 b1 a2 b2 show ?thesis
    by blast
qed

text \<open>
  Claim C9 as first stated fails: with the key path empty and the credential ID unset,
  the error envelope is the one for the credential ID; its text does not name the key
  path.
\<close>

theorem empty_key_path_not_named_without_credential:
  "[''TETHER_PRIVATE_KEY_PATH'' \<mapsto> []] ''TETHER_PRIVATE_KEY_PATH'' = Some []
   \<and> call_handler (sdk_of_core demo_core) [''TETHER_PRIVATE_KEY_PATH'' \<mapsto> []]
        Request_challenge [] =
       (Inr \<lparr>content =
              [\<lparr>item_type = ''text'',
                item_text =
                  ''Failed to request challenge: TETHER_CREDENTIAL_ID environment variable is required''\<rparr>],
             isError = Some True\<rparr>,
        [])
   \<and> \<not> str_includes
         ''Failed to request challenge: TETHER_CREDENTIAL_ID environment variable is required''
         ''TETHER_PRIVATE_KEY_PATH''"
proof -
  let ?e = "[''TETHER_PRIVATE_KEY_PATH'' \<mapsto> []] :: env"
  have "getClient (sdk_of_core demo_core) ?e []
      = (Inl (Error ''TETHER_CREDENTIAL_ID environment variable is required''), [])"
    by (simp add: getClient_no_credentialId js_not_simps)
  then have "call_handler (sdk_of_core demo_core) ?e Request_challenge [] =
      (Inr (failure
        (''Failed to request challenge: ''
           @ ''TETHER_CREDENTIAL_ID environment variable is required'')),
       [])"
    using call_handler_getClient_throws
      [of Request_challenge "sdk_of_core demo_core" ?e "[]"]
    by (simp add: message_of_simps)
  then show ?thesis
    by (simp add: failure_def)
qed

subsection \<open>The response envelope\<close>

text \<open>
  Claim C4, as amended. For every operation, every input that reached its handler, every
  environment, every SDK (returning values of its declared types) and every world: if
  the operation fails with a thrown value that has a message (an \<^verbatim>\<open>Error\<close>, or a value
  that \<^verbatim>\<open>String\<close> converts), whether it comes from \<^verbatim>\<open>getClient\<close>, the constructor or
  the SDK method, the handler returns an envelope with \<^verbatim>\<open>isError: true\<close> whose text is
  the operation's prefix followed by that message; if the operation yields a value, the
  handler returns the envelope with its serialisation. So whenever every value the
  operation can throw has a message, the handler returns an envelope with one text item
  and does not throw. \<^verbatim>\<open>get_credential_info\<close> cannot fail.
\<close>

theorem failures_with_a_message_become_envelopes:
  "(\<forall>e w' m. operation s env call w = (Inl e, w') \<and> message_of e = Inr m \<longrightarrow>
         call_handler s env call w
           = (Inr \<lparr>content = [\<lparr>item_type = ''text'', item_text = error_prefix call @ m\<rparr>],
                   isError = Some True\<rparr>, w'))
   \<and> (\<forall>v w'. operation s env call w = (Inr v, w') \<longrightarrow>
         call_handler s env call w
           = (Inr \<lparr>content = [\<lparr>item_type = ''text'', item_text = JSON_stringify v\<rparr>],
                   isError = None\<rparr>, w'))
   \<and> ((\<forall>e w'. operation s env call w = (Inl e, w') \<longrightarrow> (\<exists>m. message_of e = Inr m)) \<longrightarrow>
        (\<exists>r w'. call_handler s env call w = (Inr r, w')
           \<and> (\<exists>t. content r = [\<lparr>item_type = ''text'', item_text = t\<rparr>])
           \<and> (isError r = None \<or> isError r = Some True)))
   \<and> (\<exists>v. operation s env Get_credential_info w = (Inr v, w))"
proof (intro conjI allI impI)
  fix e w' m
  assume "operation s env call w = (Inl e, w') \<and> message_of e = Inr m"
  then show "call_handler s env call w
      = (Inr \<lparr>content = [\<lparr>item_type = ''text'', item_text = error_prefix call @ m\<rparr>],
              isError = Some True\<rparr>, w')"
    by (simp add: call_handler_operation failure_def)
next
  fix v w'
  assume "operation s env call w = (Inr v, w')"
  then show "call_handler s env call w
      = (Inr \<lparr>content = [\<lparr>item_type = ''text'', item_text = JSON_stringify v\<rparr>],
              isError = None\<rparr>, w')"
    by (simp add: call_handler_operation success_def)
next
  assume printable:
    "\<forall>e w'. operation s env call w = (Inl e, w') \<longrightarrow> (\<exists>m. message_of e = Inr m)"
  obtain res w1 where run: "operation s env call w = (res, w1)"
    by (cases "operation s env call w")
  show "\<exists>r w'. call_handler s env call w = (Inr r, w')
           \<and> (\<exists>t. content r = [\<lparr>item_type = ''text'', item_text = t\<rparr>])
           \<and> (isError r = None \<or> isError r = Some True)"
  proof (cases res)
    case (Inl e)
    with run printable obtain m where "message_of e = Inr m"
      by blast
    with run Inl show ?thesis
      by (simp add: call_handler_operation failure_def)
  next
    case (Inr v)
    with run show ?thesis
      by (simp add: call_handler_operation success_def)
  qed
next
  show "\<exists>v. operation s env Get_credential_info w = (Inr v, w)"
    by (simp add: returnE_apply)
qed

text \<open>
  Claim C4, the amended statement at concrete inputs: \<^verbatim>\<open>verify_identity\<close> against a
  service that cannot be reached (the failure is an \<^verbatim>\<open>Error\<close>), and
  \<^verbatim>\<open>request_challenge\<close> against one that answers.
\<close>

theorem failures_with_a_message_become_envelopes_witness:
  "operation (sdk_of_core offline_core) test_env Verify_identity []
     = (Inl (Error ''fetch failed''), [''requestChallenge''])
   \<and> message_of (Error ''fetch failed'') = Inr ''fetch failed''
   \<and> call_handler (sdk_of_core offline_core) test_env Verify_identity []
     = (Inr \<lparr>content =
              [\<lparr>item_type = ''text'', item_text = ''Verification failed: fetch failed''\<rparr>],
             isError = Some True\<rparr>, [''requestChallenge''])
   \<and> operation (sdk_of_core demo_core) test_env Request_challenge []
     = (Inr (JObject [(''challenge'', JString ''nonce-1'')]), [''requestChallenge''])
   \<and> call_handler (sdk_of_core demo_core) test_env Request_challenge []
     = (Inr \<lparr>content =
              [\<lparr>item_type = ''text'',
                item_text = JSON_stringify (JObject [(''challenge'', JString ''nonce-1'')])\<rparr>],
             isError = None\<rparr>, [''requestChallenge''])"
proof -
  have o1: "operation (sdk_of_core offline_core) test_env Verify_identity []
     = (Inl (Error ''fetch failed''), [''requestChallenge''])"
    by (simp add: bindE_def getClient_test_env)
       (simp add: sdk_of_core_def offline_core_def demo_core_def orchestrator_verify_def
          bindE_def)
  have m1: "message_of (Error ''fetch failed'') = Inr ''fetch failed''"
    by (simp add: message_of_simps)
  have o2: "operation (sdk_of_core demo_core) test_env Request_challenge []
     = (Inr (JObject [(''challenge'', JString ''nonce-1'')]), [''requestChallenge''])"
    by (simp add: bindE_def getClient_test_env)
       (simp add: sdk_of_core_def demo_core_def returnE_apply)
  from failures_with_a_message_become_envelopes
    [of "sdk_of_core offline_core" test_env Verify_identity "[]"] o1 m1
  have c1: "call_handler (sdk_of_core offline_core) test_env Verify_identity []
     = (Inr \<lparr>content =
              [\<lparr>item_type = ''text'', item_text = ''Verification failed: fetch failed''\<rparr>],
             isError = Some True\<rparr>, [''requestChallenge''])"
    by simp
  from failures_with_a_message_become_envelopes
    [of "sdk_of_core demo_core" test_env Request_challenge "[]"] o2
  have c2: "call_handler (sdk_of_core demo_core) test_env Request_challenge []
     = (Inr \<lparr>content =
              [\<lparr>item_type = ''text'',
                item_text = JSON_stringify (JObject [(''challenge'', JString ''nonce-1'')])\<rparr>],
             isError = None\<rparr>, [''requestChallenge''])"
    by simp
  from o1 m1 o2 c1 c2 show ?thesis
    by simp
qed

text \<open>
  Claim C4 as first stated fails: when the challenge request throws a value that
  \<^verbatim>\<open>String\<close> cannot convert (here \<^verbatim>\<open>Object.create(null)\<close>), the \<^verbatim>\<open>catch\<close> block of
  \<^verbatim>\<open>request_challenge\<close> throws the \<^verbatim>\<open>TypeError\<close> of the conversion: the handler returns no
  envelope.
\<close>

theorem unprintable_thrown_value_escapes:
  "operation (sdk_of_core unprintable_core) test_env Request_challenge []
     = (Inl (Unprintable (Error ''Cannot convert object to primitive value'')),
        [''requestChallenge''])
   \<and> call_handler (sdk_of_core unprintable_core) test_env Request_challenge []
     = (Inl (Error ''Cannot convert object to primitive value''), [''requestChallenge''])"
proof -
  have run: "operation (sdk_of_core unprintable_core) test_env Request_challenge []
     = (Inl (Unprintable (Error ''Cannot convert object to primitive value'')),
        [''requestChallenge''])"
    by (simp add: bindE_def getClient_test_env)
       (simp add: sdk_of_core_def unprintable_core_def demo_core_def)
  then show ?thesis
    by (simp add: call_handler_operation message_of_simps del: operation.simps call_handler.simps)
qed

subsection \<open>Listing the tools\<close>

text \<open>
  Claim C5. \<^verbatim>\<open>createServer\<close> succeeds, and listing its tools gives exactly the five
  named operations (the names of the five handlers), each with a non-empty description; \<^verbatim>\<open>sign_challenge\<close> requires
  \<^verbatim>\<open>challenge\<close>, \<^verbatim>\<open>submit_proof\<close> requires \<^verbatim>\<open>challenge\<close> and \<^verbatim>\<open>proof\<close>.
\<close>

theorem five_tools_are_listed:
  "(case createServer of
      Inl e \<Rightarrow> False
    | Inr server \<Rightarrow>
        map listed_name (listTools server) =
          [''verify_identity'', ''request_challenge'', ''sign_challenge'', ''submit_proof'',
           ''get_credential_info'']
        \<and> map listed_name (listTools server) =
            map tool_name_of
              [Verify_identity, Request_challenge, Sign_challenge challenge,
               Submit_proof challenge proof, Get_credential_info]
        \<and> list_all (\<lambda>t. listed_description t \<noteq> []) (listTools server)
        \<and> map_option required (find_tool ''sign_challenge'' (listTools server))
            = Some [''challenge'']
        \<and> map_option required (find_tool ''submit_proof'' (listTools server))
            = Some [''challenge'', ''proof''])"
  by (simp add: createServer_def registerTool_def bindE_def listTools_def list_tool_def
      find_tool_def)

subsection \<open>get_credential_info\<close>

text \<open>
  Claim C2 asks for a \<^verbatim>\<open>baseUrl\<close> field holding the default URL. In the empty
  environment the handler serialises an object with the three properties
  \<^verbatim>\<open>credentialId\<close>, \<^verbatim>\<open>privateKeyPath\<close> and \<^verbatim>\<open>configured\<close>; the text does not contain
  \<^verbatim>\<open>baseUrl\<close>.
\<close>

theorem credential_info_without_configuration:
  "credential_info Map.empty =
     JObject [(''credentialId'', JString ''(not set)''),
              (''privateKeyPath'', JString ''(not set)''),
              (''configured'', JBool False)]
   \<and> get_credential_info Map.empty w =
       (Inr \<lparr>content =
              [\<lparr>item_type = ''text'',
                item_text = JSON_stringify (credential_info Map.empty)\<rparr>],
             isError = None\<rparr>, w)
   \<and> \<not> str_includes (JSON_stringify (credential_info Map.empty)) ''baseUrl''"
  by (simp add: credential_info_def js_or_simps js_not_simps get_credential_info_def
      returnE_apply success_def JSON_stringify_def quote_def quote_char_def)

text \<open>
  Claim C3 asks for the configured base URL to be returned. With the three variables of
  the repository's test set, the handler returns the credential ID, the key path and
  \<^verbatim>\<open>configured: true\<close>, and no \<^verbatim>\<open>baseUrl\<close>: \<^verbatim>\<open>TETHER_BASE_URL\<close> is never read.
\<close>

theorem credential_info_with_configuration:
  "credential_info
     [''TETHER_CREDENTIAL_ID'' \<mapsto> ''my-cred-id'',
      ''TETHER_PRIVATE_KEY_PATH'' \<mapsto> ''/path/to/key.der'',
      ''TETHER_BASE_URL'' \<mapsto> ''https://custom.api.tether.name''] =
     JObject [(''credentialId'', JString ''my-cred-id''),
              (''privateKeyPath'', JString ''/path/to/key.der''),
              (''configured'', JBool True)]
   \<and> get_credential_info
       [''TETHER_CREDENTIAL_ID'' \<mapsto> ''my-cred-id'',
        ''TETHER_PRIVATE_KEY_PATH'' \<mapsto> ''/path/to/key.der'',
        ''TETHER_BASE_URL'' \<mapsto> ''https://custom.api.tether.name''] w =
       (Inr \<lparr>content =
              [\<lparr>item_type = ''text'',
                item_text = JSON_stringify
                  (JObject [(''credentialId'', JString ''my-cred-id''),
                            (''privateKeyPath'', JString ''/path/to/key.der''),
                            (''configured'', JBool True)])\<rparr>],
             isError = None\<rparr>, w)
   \<and> \<not> str_includes
         (JSON_stringify
            (JObject [(''credentialId'', JString ''my-cred-id''),
                      (''privateKeyPath'', JString ''/path/to/key.der''),
                      (''configured'', JBool True)]))
         ''baseUrl''"
  by (simp add: credential_info_def js_or_simps js_not_simps get_credential_info_def
      returnE_apply success_def JSON_stringify_def quote_def quote_char_def)

subsection \<open>sign_challenge and the empty challenge\<close>

text \<open>
  Claim C6, as amended. \<^verbatim>\<open>sign_challenge\<close> does not validate the challenge: with a
  valid configuration, that is once \<^verbatim>\<open>getClient\<close> has produced a client (both variables
  set and the constructor of the SDK returning), the challenge, the empty string
  included, is handed to the signer of the SDK as it is; the result is a success
  envelope with the proof when the signer returns one, and an error envelope with the
  signer's message when it throws (when what it throws has no message, the handler
  throws what the conversion to a string throws).
\<close>

theorem sign_challenge_hands_challenge_to_signer:
  assumes "getClient s env w = (Inr client, w1)"
  shows "sign_challenge s env challenge w =
     (case sign s client challenge w1 of
        (Inl e, w2) \<Rightarrow>
          (case message_of e of
             Inl t \<Rightarrow> (Inl t, w2)
           | Inr m \<Rightarrow> (Inr (failure (''Failed to sign challenge: '' @ m)), w2))
      | (Inr proof, w2) \<Rightarrow>
          (Inr (success (JSON_stringify (JObject [(''proof'', JString proof)]))), w2))"
  using assms
  by (simp add: sign_challenge_def try_catch_def bindE_def returnE_def liftE_def
      split: prod.splits sum.splits)

text \<open>
  Claim C6, the amended statement at the empty challenge, with a signer that accepts
  every challenge.
\<close>

theorem sign_challenge_hands_challenge_to_signer_witness:
  "getClient (sdk_of_core demo_core) test_env [] =
     (Inr \<lparr>credentialId = ''test-credential-id'', privateKeyPath = ''/tmp/test-key.der'',
           baseUrl = ''https://api.tether.name''\<rparr>, [])
   \<and> sign_challenge (sdk_of_core demo_core) test_env [] [] =
       (Inr (success (JSON_stringify (JObject [(''proof'', JString ''sig<>'')]))), [''loadKey''])"
proof -
  let ?client = "\<lparr>credentialId = ''test-credential-id'', privateKeyPath = ''/tmp/test-key.der'',
           baseUrl = ''https://api.tether.name''\<rparr>"
  have client: "getClient (sdk_of_core demo_core) test_env [] = (Inr ?client, [])"
    by (rule getClient_test_env)
  have signer: "sign (sdk_of_core demo_core) ?client [] [] = (Inr ''sig<>'', [''loadKey''])"
    by (simp add: sdk_of_core_def demo_core_def bindE_def)
  from sign_challenge_hands_challenge_to_signer [OF client, of "[]"] signer client
  show ?thesis
    by simp
qed

text \<open>
  Claim C6 as first stated fails: with a valid configuration and a signer that accepts
  every challenge, \<^verbatim>\<open>sign_challenge\<close> on the empty string returns a success envelope
  with a proof; the key was loaded and the signer ran.
\<close>

theorem empty_challenge_is_signed:
  "sign_challenge (sdk_of_core demo_core) test_env [] [] =
     (Inr \<lparr>content =
            [\<lparr>item_type = ''text'',
              item_text = JSON_stringify (JObject [(''proof'', JString ''sig<>'')])\<rparr>],
           isError = None\<rparr>,
      [''loadKey''])"
proof -
  let ?client = "\<lparr>credentialId = ''test-credential-id'', privateKeyPath = ''/tmp/test-key.der'',
           baseUrl = ''https://api.tether.name''\<rparr>"
  have signer: "sign (sdk_of_core demo_core) ?client [] [] = (Inr ''sig<>'', [''loadKey''])"
    by (simp add: sdk_of_core_def demo_core_def bindE_def)
  show ?thesis
    by (simp add: sign_challenge_def try_catch_def bindE_def returnE_def getClient_test_env
        signer success_def)
qed

subsection \<open>verify_identity and a failed challenge request\<close>



end
